theory Spec2Isabelle
  imports Complex_Main
begin

section \<open>Black-Scholes pricing, Greeks and Monte Carlo pricing of European options\<close>

text \<open>
  The three engines of \<^verbatim>\<open>src/pricing\<close> are embedded over the real numbers: a Python
  \<^verbatim>\<open>float\<close> is a \<^typ>\<open>real\<close>, so rounding, overflow, \<^verbatim>\<open>nan\<close> and \<^verbatim>\<open>inf\<close> are outside the
  model except where a result is written out as such below. The standard normal
  distribution function \<^verbatim>\<open>scipy.stats.norm.cdf\<close> and its density \<^verbatim>\<open>norm.pdf\<close> are library
  primitives; every operation that calls them takes them as the parameters \<open>norm_cdf\<close>
  and \<open>norm_pdf\<close>. The option type is the Python string the caller passes.

  Python's \<^verbatim>\<open>S / K\<close> on built-in floats raises \<^verbatim>\<open>ZeroDivisionError\<close> when \<^verbatim>\<open>K\<close> is zero;
  that is a branch of the model. \<^verbatim>\<open>np.log\<close> of a non-positive number gives \<^verbatim>\<open>nan\<close> or \<^verbatim>\<open>-inf\<close> with a
  warning, which the reals do not have: the normal-case formulas are modelled for
  \<open>S > 0\<close>, \<open>K > 0\<close>, the caller-side precondition of the repository.
\<close>

datatype py_error = ZeroDivisionError | ValueError

subsection \<open>\<^verbatim>\<open>black_scholes.py\<close>: the analytical pricer\<close>

definition BlackScholesPricer_price ::
  "(real \<Rightarrow> real) \<Rightarrow> real \<Rightarrow> real \<Rightarrow> real \<Rightarrow> real \<Rightarrow> real \<Rightarrow> string \<Rightarrow> py_error + real" where
  "BlackScholesPricer_price norm_cdf S K T r sigma option_type =
    (if T \<le> 0 then
       (if option_type = ''call'' then Inr (max (S - K) 0)
        else Inr (max (K - S) 0))
     else if sigma \<le> 0 then
       (if option_type = ''call'' then Inr (max (S - K * exp (- r * T)) 0)
        else Inr (max (K * exp (- r * T) - S) 0))
     else if K = 0 then Inl ZeroDivisionError
     else
       (let d1 = (ln (S / K) + (r + 0.5 * sigma ^ 2) * T) / (sigma * sqrt T);
            d2 = d1 - sigma * sqrt T;
            price = (if option_type = ''call''
                     then S * norm_cdf d1 - K * exp (- r * T) * norm_cdf d2
                     else K * exp (- r * T) * norm_cdf (- d2) - S * norm_cdf (- d1))
        in Inr (max price 0)))"

definition BlackScholesPricer_d1_d2 ::
  "real \<Rightarrow> real \<Rightarrow> real \<Rightarrow> real \<Rightarrow> real \<Rightarrow> py_error + (real \<times> real)" where
  "BlackScholesPricer_d1_d2 S K T r sigma =
    (if T \<le> 0 \<or> sigma \<le> 0 then Inr (0, 0)
     else if K = 0 then Inl ZeroDivisionError
     else
       (let d1 = (ln (S / K) + (r + 0.5 * sigma ^ 2) * T) / (sigma * sqrt T);
            d2 = d1 - sigma * sqrt T
        in Inr (d1, d2)))"

text \<open>
  The vectorized pricer works on numpy arrays, here lists of equal length (numpy raises
  or broadcasts on other shapes, which is not modelled). \<^verbatim>\<open>a[mask]\<close> selects the
  elements at the true positions of a boolean mask; \<^verbatim>\<open>a[mask] = vals\<close> writes \<open>vals\<close>,
  in order, to those positions. In this program the values written always come from
  arrays selected with the same mask, so there is one value for each true position.
  Arithmetic on arrays is element-wise; numpy's array division gives \<^verbatim>\<open>inf\<close> or \<^verbatim>\<open>nan\<close>
  where the scalar code raises, so the arrays are modelled for non-zero strikes.

  \<^verbatim>\<open>prices = np.zeros_like(S)\<close> has the element type of \<open>S\<close>, the parameter \<open>S_dtype\<close>: a
  floating type or a signed integer type. Every value written into \<^verbatim>\<open>prices\<close> is
  converted to that type; for an integer array the conversion drops the fractional
  part (rounding toward zero). The values of an integer array are the integers among
  the reals, and the final \<^verbatim>\<open>np.maximum(prices, 0)\<close> keeps them.
\<close>

datatype np_dtype = Float64 | Int64

definition astype :: "np_dtype \<Rightarrow> real \<Rightarrow> real" where
  "astype dtype x =
    (case dtype of
       Float64 \<Rightarrow> x
     | Int64 \<Rightarrow> (if 0 \<le> x then of_int \<lfloor>x\<rfloor> else of_int \<lceil>x\<rceil>))"

definition mask_get :: "'a list \<Rightarrow> bool list \<Rightarrow> 'a list" where
  "mask_get a m = map fst (filter snd (zip a m))"

fun mask_set :: "'a list \<Rightarrow> bool list \<Rightarrow> 'a list \<Rightarrow> 'a list" where
  "mask_set (x # xs) (True # ms) (v # vs) = v # mask_set xs ms vs"
| "mask_set (x # xs) (False # ms) vs = x # mask_set xs ms vs"
| "mask_set xs ms vs = xs"

definition np_maximum :: "real list \<Rightarrow> real \<Rightarrow> real list" where
  "np_maximum a c = map (\<lambda>x. max x c) a"

definition BlackScholesPricer_price_vectorized ::
  "(real \<Rightarrow> real) \<Rightarrow> np_dtype \<Rightarrow> real list \<Rightarrow> real list \<Rightarrow> real list \<Rightarrow> real \<Rightarrow> real list
    \<Rightarrow> string \<Rightarrow> real list" where
  "BlackScholesPricer_price_vectorized norm_cdf S_dtype S K T r sigma option_type =
    (let valid_mask = map2 (\<lambda>t s. t > 0 \<and> s > 0) T sigma;
         prices0 = map (\<lambda>_. 0) S;
         expired_mask = map (\<lambda>t. t \<le> 0) T;
         prices1 =
           (if option_type = ''call'' then
              mask_set prices0 expired_mask
                (map (astype S_dtype)
                   (np_maximum
                      (map2 (-) (mask_get S expired_mask) (mask_get K expired_mask)) 0))
            else
              mask_set prices0 expired_mask
                (map (astype S_dtype)
                   (np_maximum
                      (map2 (-) (mask_get K expired_mask) (mask_get S expired_mask)) 0)));
         no_vol_mask = map2 (\<lambda>t s. t > 0 \<and> s \<le> 0) T sigma;
         prices2 =
           (if option_type = ''call'' then
              mask_set prices1 no_vol_mask
                (map (astype S_dtype)
                   (np_maximum
                      (map2 (-) (mask_get S no_vol_mask)
                         (map2 (*) (mask_get K no_vol_mask)
                            (map (\<lambda>t. exp (- r * t)) (mask_get T no_vol_mask)))) 0))
            else
              mask_set prices1 no_vol_mask
                (map (astype S_dtype)
                   (np_maximum
                      (map2 (-)
                         (map2 (*) (mask_get K no_vol_mask)
                            (map (\<lambda>t. exp (- r * t)) (mask_get T no_vol_mask)))
                         (mask_get S no_vol_mask)) 0)));
         normal_mask = valid_mask;
         prices3 =
           (if (\<exists>m \<in> set normal_mask. m) then
              (let d1 = map2 (/)
                          (map2 (+)
                             (map ln (map2 (/) (mask_get S normal_mask) (mask_get K normal_mask)))
                             (map2 (*) (map (\<lambda>s. r + 0.5 * s ^ 2) (mask_get sigma normal_mask))
                                (mask_get T normal_mask)))
                          (map2 (*) (mask_get sigma normal_mask)
                             (map sqrt (mask_get T normal_mask)));
                   d2 = map2 (-) d1
                          (map2 (*) (mask_get sigma normal_mask)
                             (map sqrt (mask_get T normal_mask)))
               in if option_type = ''call'' then
                    mask_set prices2 normal_mask
                      (map (astype S_dtype)
                         (map2 (-)
                            (map2 (*) (mask_get S normal_mask) (map norm_cdf d1))
                            (map2 (*)
                               (map2 (*) (mask_get K normal_mask)
                                  (map (\<lambda>t. exp (- r * t)) (mask_get T normal_mask)))
                               (map norm_cdf d2))))
                  else
                    mask_set prices2 normal_mask
                      (map (astype S_dtype)
                         (map2 (-)
                            (map2 (*)
                               (map2 (*) (mask_get K normal_mask)
                                  (map (\<lambda>t. exp (- r * t)) (mask_get T normal_mask)))
                               (map (\<lambda>d. norm_cdf (- d)) d2))
                            (map2 (*) (mask_get S normal_mask)
                               (map (\<lambda>d. norm_cdf (- d)) d1)))))
            else prices2)
     in np_maximum prices3 0)"

subsection \<open>\<^verbatim>\<open>greeks.py\<close>: the Greeks\<close>

definition GreeksCalculator_d1_d2 ::
  "real \<Rightarrow> real \<Rightarrow> real \<Rightarrow> real \<Rightarrow> real \<Rightarrow> py_error + (real \<times> real)" where
  "GreeksCalculator_d1_d2 S K T r sigma =
    (if T \<le> 0 \<or> sigma \<le> 0 then Inr (0, 0)
     else if K = 0 then Inl ZeroDivisionError
     else
       (let d1 = (ln (S / K) + (r + 0.5 * sigma ^ 2) * T) / (sigma * sqrt T);
            d2 = d1 - sigma * sqrt T
        in Inr (d1, d2)))"

definition GreeksCalculator_delta ::
  "(real \<Rightarrow> real) \<Rightarrow> real \<Rightarrow> real \<Rightarrow> real \<Rightarrow> real \<Rightarrow> real \<Rightarrow> string \<Rightarrow> py_error + real" where
  "GreeksCalculator_delta norm_cdf S K T r sigma option_type =
    (if T \<le> 0 then
       (if option_type = ''call'' then Inr (if S > K then 1 else 0)
        else Inr (if S < K then - 1 else 0))
     else if sigma \<le> 0 then Inr 0
     else
       (case GreeksCalculator_d1_d2 S K T r sigma of
          Inl e \<Rightarrow> Inl e
        | Inr (d1, _) \<Rightarrow>
            if option_type = ''call'' then Inr (norm_cdf d1)
            else Inr (- norm_cdf (- d1))))"

definition GreeksCalculator_gamma ::
  "(real \<Rightarrow> real) \<Rightarrow> real \<Rightarrow> real \<Rightarrow> real \<Rightarrow> real \<Rightarrow> real \<Rightarrow> py_error + real" where
  "GreeksCalculator_gamma norm_pdf S K T r sigma =
    (if T \<le> 0 \<or> sigma \<le> 0 then Inr 0
     else
       (case GreeksCalculator_d1_d2 S K T r sigma of
          Inl e \<Rightarrow> Inl e
        | Inr (d1, _) \<Rightarrow> Inr (norm_pdf d1 / (S * sigma * sqrt T))))"

definition GreeksCalculator_vega ::
  "(real \<Rightarrow> real) \<Rightarrow> real \<Rightarrow> real \<Rightarrow> real \<Rightarrow> real \<Rightarrow> real \<Rightarrow> py_error + real" where
  "GreeksCalculator_vega norm_pdf S K T r sigma =
    (if T \<le> 0 \<or> sigma \<le> 0 then Inr 0
     else
       (case GreeksCalculator_d1_d2 S K T r sigma of
          Inl e \<Rightarrow> Inl e
        | Inr (d1, _) \<Rightarrow> Inr (S * norm_pdf d1 * sqrt T)))"

definition GreeksCalculator_theta ::
  "(real \<Rightarrow> real) \<Rightarrow> (real \<Rightarrow> real) \<Rightarrow> real \<Rightarrow> real \<Rightarrow> real \<Rightarrow> real \<Rightarrow> real \<Rightarrow> string
    \<Rightarrow> py_error + real" where
  "GreeksCalculator_theta norm_cdf norm_pdf S K T r sigma option_type =
    (if T \<le> 0 \<or> sigma \<le> 0 then Inr 0
     else
       (case GreeksCalculator_d1_d2 S K T r sigma of
          Inl e \<Rightarrow> Inl e
        | Inr (d1, d2) \<Rightarrow>
            (let term1 = - (S * norm_pdf d1 * sigma) / (2 * sqrt T);
                 term2 = (if option_type = ''call''
                          then - r * K * exp (- r * T) * norm_cdf d2
                          else r * K * exp (- r * T) * norm_cdf (- d2))
             in Inr ((term1 + term2) / 365))))"

definition GreeksCalculator_rho ::
  "(real \<Rightarrow> real) \<Rightarrow> real \<Rightarrow> real \<Rightarrow> real \<Rightarrow> real \<Rightarrow> real \<Rightarrow> string \<Rightarrow> py_error + real" where
  "GreeksCalculator_rho norm_cdf S K T r sigma option_type =
    (if T \<le> 0 \<or> sigma \<le> 0 then Inr 0
     else
       (case GreeksCalculator_d1_d2 S K T r sigma of
          Inl e \<Rightarrow> Inl e
        | Inr (_, d2) \<Rightarrow>
            if option_type = ''call'' then Inr (K * T * exp (- r * T) * norm_cdf d2)
            else Inr (- K * T * exp (- r * T) * norm_cdf (- d2))))"

text \<open>
  \<^verbatim>\<open>all_greeks\<close> builds a dictionary from the five operations, evaluated in the order
  of the dictionary display; the first exception, if any, leaves the call.
\<close>

definition GreeksCalculator_all_greeks ::
  "(real \<Rightarrow> real) \<Rightarrow> (real \<Rightarrow> real) \<Rightarrow> real \<Rightarrow> real \<Rightarrow> real \<Rightarrow> real \<Rightarrow> real \<Rightarrow> string
    \<Rightarrow> py_error + (string \<rightharpoonup> real)" where
  "GreeksCalculator_all_greeks norm_cdf norm_pdf S K T r sigma option_type =
    (case GreeksCalculator_delta norm_cdf S K T r sigma option_type of
       Inl e \<Rightarrow> Inl e
     | Inr delta \<Rightarrow>
    (case GreeksCalculator_gamma norm_pdf S K T r sigma of
       Inl e \<Rightarrow> Inl e
     | Inr gamma \<Rightarrow>
    (case GreeksCalculator_vega norm_pdf S K T r sigma of
       Inl e \<Rightarrow> Inl e
     | Inr vega \<Rightarrow>
    (case GreeksCalculator_theta norm_cdf norm_pdf S K T r sigma option_type of
       Inl e \<Rightarrow> Inl e
     | Inr theta \<Rightarrow>
    (case GreeksCalculator_rho norm_cdf S K T r sigma option_type of
       Inl e \<Rightarrow> Inl e
     | Inr rho \<Rightarrow>
         Inr [''delta'' \<mapsto> delta, ''gamma'' \<mapsto> gamma, ''vega'' \<mapsto> vega,
              ''theta'' \<mapsto> theta, ''rho'' \<mapsto> rho])))))"

subsection \<open>\<^verbatim>\<open>monte_carlo.py\<close>: the simulation pricer\<close>

text \<open>
  The draws of \<^verbatim>\<open>np.random.normal(0, 1, (n_simulations, n_steps))\<close> are the parameter
  \<open>Z\<close>: \<open>Z i j\<close> is the entry of row \<open>i\<close> (the simulation) and column \<open>j\<close> (the step), so
  that a result is a function of the draws. \<^verbatim>\<open>n_simulations\<close> and \<^verbatim>\<open>n_steps\<close> are Python
  integers. The code has no check of its own on them; what happens is what the
  operations it calls do:
  \<^item> \<^verbatim>\<open>T / n_steps\<close> with \<^verbatim>\<open>n_steps\<close> zero depends on the run-time types of the operands.
    When both are built-in numbers Python divides and raises \<^verbatim>\<open>ZeroDivisionError\<close>. When
    one is a numpy scalar, as the \<^verbatim>\<open>T[i]\<close> that \<^verbatim>\<open>MonteCarloPricer.price_vectorized\<close> passes,
    numpy divides: the result is \<^verbatim>\<open>inf\<close> (with a warning) and the call goes on. The
    parameter \<open>division\<close> says which of the two applies;
  \<^item> \<^verbatim>\<open>np.random.normal\<close> raises \<^verbatim>\<open>ValueError\<close> for a negative dimension;
  \<^item> \<^verbatim>\<open>np.mean\<close> and \<^verbatim>\<open>np.std\<close> of an empty array are \<^verbatim>\<open>nan\<close> (with a warning), so with
    \<^verbatim>\<open>n_simulations = 0\<close> and a positive \<^verbatim>\<open>n_steps\<close> the pair \<^verbatim>\<open>(nan, nan)\<close> is returned.
\<close>

datatype division = PythonDivision | NumpyDivision

text \<open>
  A numpy float that may be infinite or \<^verbatim>\<open>nan\<close>; it is needed only where \<^verbatim>\<open>dt\<close> is \<^verbatim>\<open>inf\<close>.
\<close>

datatype np_float = Finite real | PosInf | NegInf | NaN

text \<open>
  The pair returned: \<open>SimResult price std_error\<close> with both components finite, \<open>SimNaN\<close>
  for \<^verbatim>\<open>(nan, nan)\<close>, and \<open>SimNonFinite\<close> for every other pair.
\<close>

datatype sim_result = SimResult real real | SimNaN | SimNonFinite np_float np_float

fun sim_pair :: "np_float \<Rightarrow> np_float \<Rightarrow> sim_result" where
  "sim_pair (Finite p) (Finite e) = SimResult p e"
| "sim_pair NaN NaN = SimNaN"
| "sim_pair a b = SimNonFinite a b"

text \<open>\<^verbatim>\<open>np.mean\<close> and \<^verbatim>\<open>np.std\<close> (with the default \<^verbatim>\<open>ddof=0\<close>) of a non-empty array.\<close>

definition np_mean :: "real list \<Rightarrow> real" where
  "np_mean a = sum_list a / real (length a)"

definition np_std :: "real list \<Rightarrow> real" where
  "np_std a = sqrt (np_mean (map (\<lambda>x. \<bar>x - np_mean a\<bar> ^ 2) a))"

text \<open>
  The array \<^verbatim>\<open>ST\<close> of terminal prices, one entry for each simulation. In the multi-step
  branch \<^verbatim>\<open>log_ST\<close> starts from a scalar and each pass of the loop adds a column of \<open>Z\<close>
  to it element-wise; entry \<open>i\<close> therefore runs the loop on row \<open>i\<close> of \<open>Z\<close>.
\<close>

definition MonteCarloPricer_ST ::
  "(nat \<Rightarrow> nat \<Rightarrow> real) \<Rightarrow> real \<Rightarrow> real \<Rightarrow> real \<Rightarrow> real \<Rightarrow> int \<Rightarrow> int \<Rightarrow> real list" where
  "MonteCarloPricer_ST Z S T r sigma n_simulations n_steps =
    (let dt = T / of_int n_steps in
     if n_steps = 1 then
       map (\<lambda>i. S * exp ((r - 0.5 * sigma ^ 2) * T + sigma * sqrt T * Z i 0))
         [0 ..< nat n_simulations]
     else
       map (\<lambda>i. exp (fold (\<lambda>step log_ST. log_ST + sigma * sqrt dt * Z i step)
                        [0 ..< nat n_steps]
                        (ln S + (r - 0.5 * sigma ^ 2) * dt)))
         [0 ..< nat n_simulations])"

definition MonteCarloPricer_discounted_payoffs ::
  "(nat \<Rightarrow> nat \<Rightarrow> real) \<Rightarrow> real \<Rightarrow> real \<Rightarrow> real \<Rightarrow> real \<Rightarrow> real \<Rightarrow> string \<Rightarrow> int \<Rightarrow> int
    \<Rightarrow> real list" where
  "MonteCarloPricer_discounted_payoffs Z S K T r sigma option_type n_simulations n_steps =
    (let ST = MonteCarloPricer_ST Z S T r sigma n_simulations n_steps;
         payoffs = (if option_type = ''call'' then map (\<lambda>s. max (s - K) 0) ST
                    else map (\<lambda>s. max (K - s) 0) ST)
     in map (\<lambda>p. exp (- r * T) * p) payoffs)"

text \<open>
  The rest of the body of \<^verbatim>\<open>price\<close> when \<^verbatim>\<open>n_steps\<close> is zero and numpy has divided, for
  \<open>T > 0\<close>, \<open>sigma > 0\<close> and \<^verbatim>\<open>n_simulations \<ge> 0\<close>: \<^verbatim>\<open>dt\<close> is \<^verbatim>\<open>inf\<close> and \<open>Z\<close> has no column.
  The branch taken is the multi-step one. \<^verbatim>\<open>np.log(S)\<close> is finite for \<open>S > 0\<close>, \<^verbatim>\<open>-inf\<close> for
  \<open>S = 0\<close> and \<^verbatim>\<open>nan\<close> for \<open>S < 0\<close>; the drift times \<^verbatim>\<open>inf\<close> is \<^verbatim>\<open>inf\<close>, \<^verbatim>\<open>-inf\<close> or (for a zero
  drift) \<^verbatim>\<open>nan\<close>; the loop does not run, so \<^verbatim>\<open>log_ST\<close> stays a scalar and so do \<^verbatim>\<open>ST\<close>, the
  payoff and the discounted payoff. \<^verbatim>\<open>np.mean\<close> of a scalar is the scalar; \<^verbatim>\<open>np.std\<close> of
  a finite scalar is zero and of \<^verbatim>\<open>inf\<close> or \<^verbatim>\<open>nan\<close> is \<^verbatim>\<open>nan\<close>; the division by
  \<^verbatim>\<open>np.sqrt(n_simulations)\<close> gives \<^verbatim>\<open>nan\<close> when \<^verbatim>\<open>n_simulations\<close> is zero.
\<close>

definition MonteCarloPricer_price_inf_dt ::
  "real \<Rightarrow> real \<Rightarrow> real \<Rightarrow> real \<Rightarrow> real \<Rightarrow> string \<Rightarrow> int \<Rightarrow> sim_result" where
  "MonteCarloPricer_price_inf_dt S K T r sigma option_type n_simulations =
    (let drift = r - 0.5 * sigma ^ 2;
         log_ST = (if 0 < S \<and> 0 < drift then PosInf
                   else if 0 \<le> S \<and> drift < 0 then NegInf
                   else NaN);
         ST = (case log_ST of PosInf \<Rightarrow> PosInf | NegInf \<Rightarrow> Finite 0 | _ \<Rightarrow> NaN);
         payoffs =
           (if option_type = ''call'' then
              (case ST of Finite s \<Rightarrow> Finite (max (s - K) 0) | PosInf \<Rightarrow> PosInf | _ \<Rightarrow> NaN)
            else
              (case ST of Finite s \<Rightarrow> Finite (max (K - s) 0) | PosInf \<Rightarrow> Finite 0
               | _ \<Rightarrow> NaN));
         discounted_payoffs =
           (case payoffs of Finite p \<Rightarrow> Finite (exp (- r * T) * p) | x \<Rightarrow> x);
         price = discounted_payoffs;
         std = (case discounted_payoffs of Finite _ \<Rightarrow> Finite 0 | _ \<Rightarrow> NaN);
         std_error =
           (case std of
              Finite s \<Rightarrow>
                if n_simulations = 0 then NaN else Finite (s / sqrt (of_int n_simulations))
            | _ \<Rightarrow> NaN)
     in sim_pair price std_error)"

definition MonteCarloPricer_price ::
  "division \<Rightarrow> (nat \<Rightarrow> nat \<Rightarrow> real) \<Rightarrow> real \<Rightarrow> real \<Rightarrow> real \<Rightarrow> real \<Rightarrow> real \<Rightarrow> string
    \<Rightarrow> int \<Rightarrow> int \<Rightarrow> py_error + sim_result" where
  "MonteCarloPricer_price division Z S K T r sigma option_type n_simulations n_steps =
    (if T \<le> 0 then
       (let payoff = (if option_type = ''call'' then max (S - K) 0 else max (K - S) 0)
        in Inr (SimResult payoff 0))
     else if sigma \<le> 0 then
       (let price = (if option_type = ''call'' then max (S - K * exp (- r * T)) 0
                     else max (K * exp (- r * T) - S) 0)
        in Inr (SimResult price 0))
     else if n_steps = 0 \<and> division = PythonDivision then Inl ZeroDivisionError
     else if n_simulations < 0 \<or> n_steps < 0 then Inl ValueError
     else if n_steps = 0 then
       Inr (MonteCarloPricer_price_inf_dt S K T r sigma option_type n_simulations)
     else
       (let discounted_payoffs =
              MonteCarloPricer_discounted_payoffs Z S K T r sigma option_type
                n_simulations n_steps
        in if discounted_payoffs = [] then Inr SimNaN
           else Inr (SimResult (np_mean discounted_payoffs)
                       (np_std discounted_payoffs / sqrt (of_int n_simulations)))))"

text \<open>
  The quantities \<open>d1\<close> and \<open>d2\<close> as the specification writes them, for comparison with
  what the code computes inline.
\<close>

definition spec_d1 :: "real \<Rightarrow> real \<Rightarrow> real \<Rightarrow> real \<Rightarrow> real \<Rightarrow> real" where
  "spec_d1 S K T r sigma = (ln (S / K) + (r + sigma ^ 2 / 2) * T) / (sigma * sqrt T)"

definition spec_d2 :: "real \<Rightarrow> real \<Rightarrow> real \<Rightarrow> real \<Rightarrow> real \<Rightarrow> real" where
  "spec_d2 S K T r sigma = spec_d1 S K T r sigma - sigma * sqrt T"

text \<open>
  A concrete distribution function for instantiating the results below: the distribution
  function of the point mass at zero, with the midpoint value at the jump. It takes
  values in \<open>[0, 1]\<close>, is monotone and satisfies \<open>F (- x) = 1 - F x\<close>.
\<close>

definition point_mass_cdf :: "real \<Rightarrow> real" where
  "point_mass_cdf x = (if x < 0 then 0 else if x = 0 then 1 / 2 else 1)"

text \<open>
  The sample standard deviation as the specification words it (Bessel-corrected, divisor
  \<open>n - 1\<close>), and the population standard deviation (divisor \<open>n\<close>), for comparison with
  what \<^verbatim>\<open>np.std\<close> computes.
\<close>

definition spec_sample_std :: "real list \<Rightarrow> real" where
  "spec_sample_std a =
     sqrt (sum_list (map (\<lambda>x. (x - sum_list a / real (length a)) ^ 2) a)
           / (real (length a) - 1))"

definition spec_population_std :: "real list \<Rightarrow> real" where
  "spec_population_std a =
     sqrt (sum_list (map (\<lambda>x. (x - sum_list a / real (length a)) ^ 2) a)
           / real (length a))"

text \<open>
  Two rows of draws that give the terminal prices \<open>1\<close> and \<open>3\<close> from \<open>S = 1\<close>, \<open>T = 1\<close>,
  \<open>r = 0\<close>, \<open>sigma = 1\<close> in one step.
\<close>

definition draws_0_2 :: "nat \<Rightarrow> nat \<Rightarrow> real" where
  "draws_0_2 i j = (if i = 0 then 1 / 2 else 1 / 2 + ln 3)"

section \<open>Results\<close>

text \<open>
  C1. For positive spot and strike and option type \<^verbatim>\<open>"call"\<close> or \<^verbatim>\<open>"put"\<close>, the scalar
  analytical price returns the intrinsic value when \<open>T \<le> 0\<close>, the discounted intrinsic
  value when \<open>T > 0\<close> and \<open>sigma \<le> 0\<close>, and otherwise the Black-Scholes value with the
  specification's \<open>d1\<close> and \<open>d2\<close>, clamped below by zero.
\<close>

theorem price_three_way_branch:
  assumes "0 < S" and "0 < K" and "option_type = ''call'' \<or> option_type = ''put''"
  shows "BlackScholesPricer_price norm_cdf S K T r sigma option_type = Inr
    (if T \<le> 0 then
       (if option_type = ''call'' then max (S - K) 0 else max (K - S) 0)
     else if sigma \<le> 0 then
       (if option_type = ''call'' then max (S - K * exp (- (r * T))) 0
        else max (K * exp (- (r * T)) - S) 0)
     else
       (if option_type = ''call''
        then max (S * norm_cdf (spec_d1 S K T r sigma)
                  - K * exp (- (r * T)) * norm_cdf (spec_d2 S K T r sigma)) 0
        else max (K * exp (- (r * T)) * norm_cdf (- spec_d2 S K T r sigma)
                  - S * norm_cdf (- spec_d1 S K T r sigma)) 0))"
  using assms
  by (auto simp add: BlackScholesPricer_price_def Let_def spec_d1_def spec_d2_def)

theorem price_three_way_branch_witness:
  "(0::real) < 1 \<and> (0::real) < 1 \<and> (''call'' = ''call'' \<or> ''call'' = ''put'')
   \<and> BlackScholesPricer_price point_mass_cdf 1 1 1 0 1 ''call'' = Inr 1"
  using price_three_way_branch [of 1 1 "''call''" point_mass_cdf 1 0 1]
  by (simp add: spec_d1_def spec_d2_def point_mass_cdf_def)

lemma d1_d2_normal:
  assumes "0 < T" and "0 < sigma" and "K \<noteq> 0"
  shows "GreeksCalculator_d1_d2 S K T r sigma
         = Inr (spec_d1 S K T r sigma, spec_d2 S K T r sigma)"
  using assms by (simp add: GreeksCalculator_d1_d2_def Let_def spec_d1_def spec_d2_def)

lemma point_mass_cdf_range: "0 \<le> point_mass_cdf x \<and> point_mass_cdf x \<le> 1"
  by (simp add: point_mass_cdf_def)

text \<open>
  C8. For positive spot and strike, Delta is: at \<open>T \<le> 0\<close>, \<open>1\<close> if \<open>S > K\<close> else \<open>0\<close> for a
  call and \<open>-1\<close> if \<open>S < K\<close> else \<open>0\<close> for a put; at \<open>T > 0\<close> with \<open>sigma \<le> 0\<close>, zero for both
  types; otherwise \<open>\<Phi>(d1)\<close> for a call and \<open>-\<Phi>(-d1)\<close> for a put.
\<close>

theorem delta_three_way_branch:
  assumes "0 < S" and "0 < K" and "option_type = ''call'' \<or> option_type = ''put''"
  shows "GreeksCalculator_delta norm_cdf S K T r sigma option_type = Inr
    (if T \<le> 0 then
       (if option_type = ''call'' then (if S > K then 1 else 0)
        else (if S < K then - 1 else 0))
     else if sigma \<le> 0 then 0
     else
       (if option_type = ''call'' then norm_cdf (spec_d1 S K T r sigma)
        else - norm_cdf (- spec_d1 S K T r sigma)))"
  using assms by (auto simp add: GreeksCalculator_delta_def d1_d2_normal)

theorem delta_three_way_branch_witness:
  "(0::real) < 1 \<and> (0::real) < 1 \<and> (''put'' = ''call'' \<or> ''put'' = ''put'')
   \<and> GreeksCalculator_delta point_mass_cdf 1 1 1 0 1 ''put'' = Inr 0"
  using delta_three_way_branch [of 1 1 "''put''" point_mass_cdf 1 0 1]
  by (simp add: spec_d1_def point_mass_cdf_def)

text \<open>
  C10. For positive spot and strike and a distribution function with values in \<open>[0, 1]\<close>,
  the Delta of a call lies in \<open>[0, 1]\<close> and the Delta of a put in \<open>[-1, 0]\<close>, in the
  expired, the zero-volatility and the normal branch; so its absolute value is at most
  one.
\<close>

theorem delta_bounded:
  assumes "0 < S" and "0 < K" and "\<forall>x. 0 \<le> norm_cdf x \<and> norm_cdf x \<le> 1"
  shows "\<exists>d. GreeksCalculator_delta norm_cdf S K T r sigma option_type = Inr d
           \<and> (if option_type = ''call'' then 0 \<le> d \<and> d \<le> 1 else - 1 \<le> d \<and> d \<le> 0)
           \<and> \<bar>d\<bar> \<le> 1"
proof -
  have cdf: "0 \<le> norm_cdf x" "norm_cdf x \<le> 1" for x
    using assms(3) by simp_all
  show ?thesis
  proof (cases "T \<le> 0 \<or> sigma \<le> 0")
    case True
    then show ?thesis by (auto simp add: GreeksCalculator_delta_def)
  next
    case False
    with assms(2) have d: "GreeksCalculator_d1_d2 S K T r sigma
         = Inr (spec_d1 S K T r sigma, spec_d2 S K T r sigma)"
      by (simp add: d1_d2_normal)
    show ?thesis
    proof (cases "option_type = ''call''")
      case True
      with False d cdf [of "spec_d1 S K T r sigma"] show ?thesis
        by (simp add: GreeksCalculator_delta_def)
    next
      case ot: False
      with False d cdf [of "- spec_d1 S K T r sigma"] show ?thesis
        by (simp add: GreeksCalculator_delta_def)
    qed
  qed
qed

theorem delta_bounded_witness:
  "(0::real) < 1 \<and> (0::real) < 1 \<and> (\<forall>x. 0 \<le> point_mass_cdf x \<and> point_mass_cdf x \<le> 1)
   \<and> (\<exists>d. GreeksCalculator_delta point_mass_cdf 1 1 1 0 1 ''call'' = Inr d
          \<and> 0 \<le> d \<and> d \<le> 1 \<and> \<bar>d\<bar> \<le> 1)"
  using delta_bounded [of 1 1 point_mass_cdf 1 0 1 "''call''"] point_mass_cdf_range
  by simp

lemma spec_d1_d2_squares:
  assumes "0 < S" and "0 < K" and "0 < T" and "0 < sigma"
  shows "(spec_d1 S K T r sigma)\<^sup>2 - (spec_d2 S K T r sigma)\<^sup>2 = 2 * (ln (S / K) + r * T)"
proof -
  define a where "a = sigma * sqrt T"
  have a: "0 < a" using assms by (simp add: a_def)
  have aa: "a * a = sigma ^ 2 * T"
    using assms by (simp add: a_def power2_eq_square algebra_simps)
  define L where "L = ln (S / K) + r * T"
  have d1: "spec_d1 S K T r sigma = (L + a * a / 2) / a"
    unfolding spec_d1_def a_def [symmetric] L_def aa by (simp add: algebra_simps)
  have d2: "spec_d2 S K T r sigma = (L + a * a / 2) / a - a"
    unfolding spec_d2_def d1 a_def ..
  have "((L + a * a / 2) / a)\<^sup>2 - ((L + a * a / 2) / a - a)\<^sup>2 = 2 * L"
    using a by (simp add: power2_eq_square field_simps)
  then show ?thesis unfolding d1 d2 L_def .
qed

lemma discount_identity:
  assumes "0 < S" and "0 < K" and "0 < T" and "0 < sigma"
  shows "S * exp (- ((spec_d1 S K T r sigma)\<^sup>2) / 2)
         = K * exp (- (r * T)) * exp (- ((spec_d2 S K T r sigma)\<^sup>2) / 2)"
proof -
  let ?d1 = "spec_d1 S K T r sigma" and ?d2 = "spec_d2 S K T r sigma"
  have "- (?d1\<^sup>2) / 2 = - (?d2\<^sup>2) / 2 + (- ln (S / K)) + (- (r * T))"
    using spec_d1_d2_squares [OF assms, of r] by (simp add: field_simps)
  then have "exp (- (?d1\<^sup>2) / 2) = exp (- (?d2\<^sup>2) / 2) * exp (- ln (S / K)) * exp (- (r * T))"
    by (simp only: exp_add)
  also have "exp (- ln (S / K)) = K / S"
    using assms by (simp add: exp_minus)
  finally show ?thesis using assms by (simp add: field_simps)
qed

lemma raw_call_nonneg:
  assumes "0 < S" and "0 < K" and "0 < T" and "0 < sigma"
    and mills: "\<forall>x y. x \<le> y \<longrightarrow> F x * exp (- (y\<^sup>2) / 2) \<le> F y * exp (- (x\<^sup>2) / 2)"
  shows "K * exp (- (r * T)) * F (spec_d2 S K T r sigma) \<le> S * F (spec_d1 S K T r sigma)"
proof -
  let ?d1 = "spec_d1 S K T r sigma" and ?d2 = "spec_d2 S K T r sigma"
  have le: "?d2 \<le> ?d1" using assms by (simp add: spec_d2_def)
  have "F ?d2 * exp (- (?d1\<^sup>2) / 2) \<le> F ?d1 * exp (- (?d2\<^sup>2) / 2)"
    using mills le by blast
  then have "F ?d2 * (S * exp (- (?d1\<^sup>2) / 2)) \<le> S * F ?d1 * exp (- (?d2\<^sup>2) / 2)"
    using assms(1) by (simp add: mult.assoc mult.left_commute)
  then have "(K * exp (- (r * T)) * F ?d2) * exp (- (?d2\<^sup>2) / 2)
             \<le> (S * F ?d1) * exp (- (?d2\<^sup>2) / 2)"
    unfolding discount_identity [OF assms(1-4)] by (simp add: mult_ac)
  then show ?thesis by simp
qed

lemma raw_put_nonneg:
  assumes "0 < S" and "0 < K" and "0 < T" and "0 < sigma"
    and mills: "\<forall>x y. x \<le> y \<longrightarrow> F x * exp (- (y\<^sup>2) / 2) \<le> F y * exp (- (x\<^sup>2) / 2)"
  shows "S * F (- spec_d1 S K T r sigma) \<le> K * exp (- (r * T)) * F (- spec_d2 S K T r sigma)"
proof -
  let ?d1 = "spec_d1 S K T r sigma" and ?d2 = "spec_d2 S K T r sigma"
  have le: "- ?d1 \<le> - ?d2" using assms by (simp add: spec_d2_def)
  have "F (- ?d1) * exp (- ((- ?d2)\<^sup>2) / 2) \<le> F (- ?d2) * exp (- ((- ?d1)\<^sup>2) / 2)"
    using mills le by blast
  then have "F (- ?d1) * exp (- (?d2\<^sup>2) / 2) \<le> F (- ?d2) * exp (- (?d1\<^sup>2) / 2)"
    by simp
  then have "S * (F (- ?d1) * exp (- (?d2\<^sup>2) / 2)) \<le> F (- ?d2) * (S * exp (- (?d1\<^sup>2) / 2))"
    using assms(1) by (simp add: mult.assoc mult.left_commute)
  then have "(S * F (- ?d1)) * exp (- (?d2\<^sup>2) / 2)
             \<le> (K * exp (- (r * T)) * F (- ?d2)) * exp (- (?d2\<^sup>2) / 2)"
    unfolding discount_identity [OF assms(1-4)] by (simp add: mult_ac)
  then show ?thesis by simp
qed

text \<open>
  C6. Put-call parity. The distribution function is a parameter, so the two facts about
  the standard normal distribution that the equation rests on are hypotheses: its
  symmetry, \<open>\<Phi>(-x) = 1 - \<Phi>(x)\<close>, and the monotonicity of \<open>\<Phi>(x) / \<phi>(x)\<close> with
  \<open>\<phi>(x)\<close> proportional to \<open>exp (- x\<^sup>2 / 2)\<close>, which makes both unclamped values
  non-negative, so that the final \<^verbatim>\<open>max(price, 0)\<close> changes neither. Then, for positive
  \<open>S\<close>, \<open>K\<close>, \<open>T\<close> and \<open>sigma\<close>, call price minus put price is \<open>S - K * exp (- r * T)\<close>.
\<close>

theorem put_call_parity:
  assumes "0 < S" and "0 < K" and "0 < T" and "0 < sigma"
    and sym: "\<forall>x. norm_cdf (- x) = 1 - norm_cdf x"
    and mills: "\<forall>x y. x \<le> y \<longrightarrow>
                  norm_cdf x * exp (- (y\<^sup>2) / 2) \<le> norm_cdf y * exp (- (x\<^sup>2) / 2)"
  shows "\<exists>c p. BlackScholesPricer_price norm_cdf S K T r sigma ''call'' = Inr c
             \<and> BlackScholesPricer_price norm_cdf S K T r sigma ''put'' = Inr p
             \<and> c - p = S - K * exp (- (r * T))"
proof -
  let ?d1 = "spec_d1 S K T r sigma" and ?d2 = "spec_d2 S K T r sigma"
  let ?c = "S * norm_cdf ?d1 - K * exp (- (r * T)) * norm_cdf ?d2"
  let ?p = "K * exp (- (r * T)) * norm_cdf (- ?d2) - S * norm_cdf (- ?d1)"
  have c: "BlackScholesPricer_price norm_cdf S K T r sigma ''call'' = Inr (max ?c 0)"
    using assms(1-4)
    by (simp add: BlackScholesPricer_price_def Let_def spec_d1_def spec_d2_def)
  have p: "BlackScholesPricer_price norm_cdf S K T r sigma ''put'' = Inr (max ?p 0)"
    using assms(1-4)
    by (simp add: BlackScholesPricer_price_def Let_def spec_d1_def spec_d2_def)
  have c0: "0 \<le> ?c"
    using raw_call_nonneg [OF assms(1-4) mills, of r] by simp
  have p0: "0 \<le> ?p"
    using raw_put_nonneg [OF assms(1-4) mills, of r] by simp
  have n1: "norm_cdf (- ?d1) = 1 - norm_cdf ?d1" and n2: "norm_cdf (- ?d2) = 1 - norm_cdf ?d2"
    using sym by blast+
  have "?c - ?p = S - K * exp (- (r * T))"
    unfolding n1 n2 by (simp add: algebra_simps)
  with c0 p0 have "max ?c 0 - max ?p 0 = S - K * exp (- (r * T))"
    by (simp add: max_def)
  with c p show ?thesis by blast
qed

lemma point_mass_cdf_sym: "point_mass_cdf (- x) = 1 - point_mass_cdf x"
  by (simp add: point_mass_cdf_def)

lemma point_mass_cdf_mills:
  assumes "x \<le> y"
  shows "point_mass_cdf x * exp (- (y\<^sup>2) / 2) \<le> point_mass_cdf y * exp (- (x\<^sup>2) / 2)"
proof -
  consider "x < 0" | "x = 0" | "0 < x" by linarith
  then show ?thesis
  proof cases
    case 1
    then show ?thesis by (simp add: point_mass_cdf_def)
  next
    case 2
    have "exp (- (y\<^sup>2 / 2)) \<le> 1" by simp
    then have "exp (- (y\<^sup>2 / 2)) \<le> 2" by linarith
    with 2 assms show ?thesis by (simp add: point_mass_cdf_def)
  next
    case 3
    with assms have "x\<^sup>2 \<le> y\<^sup>2" by (simp add: power_mono)
    with 3 assms show ?thesis by (simp add: point_mass_cdf_def)
  qed
qed

theorem put_call_parity_witness:
  "(0::real) < 1 \<and> (0::real) < 1 \<and> (0::real) < 1 \<and> (0::real) < 1
   \<and> (\<forall>x. point_mass_cdf (- x) = 1 - point_mass_cdf x)
   \<and> (\<exists>c p. BlackScholesPricer_price point_mass_cdf 1 1 1 0 1 ''call'' = Inr c
             \<and> BlackScholesPricer_price point_mass_cdf 1 1 1 0 1 ''put'' = Inr p
             \<and> c - p = 1 - 1 * exp (- (0 * 1)))"
  using put_call_parity [of 1 1 1 1 point_mass_cdf 0]
    point_mass_cdf_sym point_mass_cdf_mills
  by simp

lemma np_mean_nonneg:
  assumes "\<forall>x \<in> set a. 0 \<le> x"
  shows "0 \<le> np_mean a"
  using assms by (simp add: np_mean_def sum_list_nonneg)

lemma discounted_payoffs_nonneg:
  "\<forall>x \<in> set (MonteCarloPricer_discounted_payoffs Z S K T r sigma option_type
                  n_simulations n_steps). 0 \<le> x"
  by (auto simp add: MonteCarloPricer_discounted_payoffs_def Let_def)

lemma length_ST:
  "length (MonteCarloPricer_ST Z S T r sigma n_simulations n_steps) = nat n_simulations"
  by (simp add: MonteCarloPricer_ST_def Let_def)

lemma length_discounted_payoffs:
  "length (MonteCarloPricer_discounted_payoffs Z S K T r sigma option_type
             n_simulations n_steps) = nat n_simulations"
  by (simp add: MonteCarloPricer_discounted_payoffs_def Let_def length_ST)

lemma mc_price_normal:
  assumes "0 < T" and "0 < sigma" and "0 < n_simulations" and "0 < n_steps"
  shows "MonteCarloPricer_price division Z S K T r sigma option_type n_simulations n_steps
         = Inr (SimResult
             (np_mean (MonteCarloPricer_discounted_payoffs Z S K T r sigma option_type
                         n_simulations n_steps))
             (np_std (MonteCarloPricer_discounted_payoffs Z S K T r sigma option_type
                        n_simulations n_steps) / sqrt (of_int n_simulations)))"
proof -
  have "length (MonteCarloPricer_discounted_payoffs Z S K T r sigma option_type
             n_simulations n_steps) \<noteq> 0"
    using assms(3) by (simp add: length_discounted_payoffs)
  then have "MonteCarloPricer_discounted_payoffs Z S K T r sigma option_type
             n_simulations n_steps \<noteq> []"
    by simp
  with assms show ?thesis
    by (simp add: MonteCarloPricer_price_def Let_def)
qed

text \<open>
  C9. Non-negativity. For positive spot and strike the analytical price is a number
  \<open>\<ge> 0\<close> in each of the three branches; and for positive \<^verbatim>\<open>n_simulations\<close> and
  \<^verbatim>\<open>n_steps\<close> and any draws \<open>Z\<close> the Monte Carlo price is a number \<open>\<ge> 0\<close>, again in each
  branch.
\<close>

theorem prices_nonneg:
  assumes "0 < S" and "0 < K" and "0 < n_simulations" and "0 < n_steps"
  shows "(\<exists>p. BlackScholesPricer_price norm_cdf S K T r sigma option_type = Inr p \<and> 0 \<le> p)
       \<and> (\<exists>p e. MonteCarloPricer_price division Z S K T r sigma option_type n_simulations n_steps
                  = Inr (SimResult p e) \<and> 0 \<le> p)"
proof
  show "\<exists>p. BlackScholesPricer_price norm_cdf S K T r sigma option_type = Inr p \<and> 0 \<le> p"
    using assms(2) by (simp add: BlackScholesPricer_price_def Let_def)
next
  show "\<exists>p e. MonteCarloPricer_price division Z S K T r sigma option_type n_simulations n_steps
                  = Inr (SimResult p e) \<and> 0 \<le> p"
  proof (cases "T \<le> 0 \<or> sigma \<le> 0")
    case True
    then show ?thesis by (auto simp add: MonteCarloPricer_price_def Let_def)
  next
    case False
    then have "0 < T" and "0 < sigma" by simp_all
    from mc_price_normal [OF this assms(3,4)] np_mean_nonneg [OF discounted_payoffs_nonneg]
    show ?thesis by blast
  qed
qed

theorem prices_nonneg_witness:
  "(0::real) < 1 \<and> (0::real) < 1 \<and> (0::int) < 2 \<and> (0::int) < 1
   \<and> (\<exists>p. BlackScholesPricer_price point_mass_cdf 1 1 1 0 1 ''call'' = Inr p \<and> 0 \<le> p)
   \<and> (\<exists>p e. MonteCarloPricer_price PythonDivision (\<lambda>i j. 0) 1 1 1 0 1 ''call'' 2 1
                  = Inr (SimResult p e) \<and> 0 \<le> p)"
  using prices_nonneg [where S = 1 and K = 1 and n_simulations = 2 and n_steps = 1
      and norm_cdf = point_mass_cdf and T = 1 and r = 0 and sigma = 1
      and option_type = "''call''" and division = PythonDivision and Z = "\<lambda>i j. 0"]
  by simp

lemma upt2: "[0 ..< 2] = [0, 1]"
  by (simp add: upt_rec)

lemma fold_shocks:
  "fold (\<lambda>step log_ST. log_ST + c * Z step) [0 ..< n] a = a + (c::real) * (\<Sum>j < n. Z j)"
  by (induction n arbitrary: a) (simp_all add: algebra_simps)

lemma multi_step_terminal_log_price:
  assumes "1 < n_steps" and "int i < n_simulations"
  shows "ln (MonteCarloPricer_ST Z S T r sigma n_simulations n_steps ! i)
         = ln S + (r - sigma ^ 2 / 2) * (T / of_int n_steps)
           + sigma * sqrt (T / of_int n_steps) * (\<Sum>j < nat n_steps. Z i j)"
proof -
  have "i < nat n_simulations" using assms(2) by simp
  then show ?thesis
    using assms(1) by (simp add: MonteCarloPricer_ST_def Let_def fold_shocks)
qed

text \<open>
  C2. In the multi-step branch the drift \<open>(r - sigma\<^sup>2 / 2) * dt\<close> is added once, before
  the loop, and the loop adds only the shocks: the terminal log-price has the drift of a
  single step, as \<open>multi_step_terminal_log_price\<close> states for all inputs. With
  \<open>S = 1\<close>, \<open>T = 2\<close>, \<open>r = 1\<close>, \<open>sigma = 1\<close>, two steps and all draws zero the terminal price
  is \<open>exp (1 / 2)\<close>, where the drift of every step would give \<open>exp 1\<close>.
\<close>

theorem multi_step_drift_at_failing_input:
  "MonteCarloPricer_ST (\<lambda>i j. 0) 1 2 1 1 1 2 = [exp (1 / 2)]
   \<and> ln (exp (1 / 2) :: real) \<noteq> ln 1 + (1 - 1 ^ 2 / 2) * 2 + 1 * sqrt (2 / 2) * (0 + 0)"
  by (simp add: MonteCarloPricer_ST_def Let_def upt2)

lemma discounted_0_2:
  "MonteCarloPricer_discounted_payoffs draws_0_2 1 1 1 0 1 ''call'' 2 1 = [0, 2]"
  by (simp add: MonteCarloPricer_discounted_payoffs_def MonteCarloPricer_ST_def Let_def
      draws_0_2_def upt2 exp_add)

text \<open>
  C3, as stated, fails: with the discounted payoffs \<open>[0, 2]\<close> the standard error
  returned is \<open>1 / sqrt 2\<close>, the Bessel-corrected estimator gives \<open>1\<close>.
\<close>

theorem standard_error_not_bessel:
  "MonteCarloPricer_price PythonDivision draws_0_2 1 1 1 0 1 ''call'' 2 1 = Inr (SimResult 1 (1 / sqrt 2))
   \<and> MonteCarloPricer_discounted_payoffs draws_0_2 1 1 1 0 1 ''call'' 2 1 = [0, 2]
   \<and> spec_sample_std [0, 2] / sqrt 2 = 1
   \<and> 1 / sqrt 2 \<noteq> (1::real)"
  by (simp add: MonteCarloPricer_price_def discounted_0_2 np_mean_def np_std_def
      spec_sample_std_def)

lemma np_std_population: "np_std a = spec_population_std a"
  by (simp add: np_std_def np_mean_def spec_population_std_def)

text \<open>
  C3, amended. For \<open>T > 0\<close>, \<open>sigma > 0\<close> and positive \<^verbatim>\<open>n_simulations\<close> and \<^verbatim>\<open>n_steps\<close>, the
  price returned is the mean of the discounted payoffs and the standard error is their
  population standard deviation (divisor \<open>n\<close>, as \<^verbatim>\<open>np.std\<close> computes by default)
  divided by the square root of \<^verbatim>\<open>n_simulations\<close>.
\<close>

theorem standard_error_population:
  assumes "0 < T" and "0 < sigma" and "0 < n_simulations" and "0 < n_steps"
  shows "MonteCarloPricer_price division Z S K T r sigma option_type n_simulations n_steps
         = Inr (SimResult
             (sum_list (MonteCarloPricer_discounted_payoffs Z S K T r sigma option_type
                          n_simulations n_steps) / of_int n_simulations)
             (spec_population_std (MonteCarloPricer_discounted_payoffs Z S K T r sigma
                          option_type n_simulations n_steps) / sqrt (of_int n_simulations)))"
  using assms
  by (simp add: mc_price_normal np_std_population np_mean_def length_discounted_payoffs)

theorem standard_error_population_witness:
  "(0::real) < 1 \<and> (0::real) < 1 \<and> (0::int) < 2 \<and> (0::int) < 1
   \<and> MonteCarloPricer_price PythonDivision draws_0_2 1 1 1 0 1 ''call'' 2 1
       = Inr (SimResult (sum_list [0, 2] / of_int 2)
                (spec_population_std [0, 2] / sqrt (of_int 2)))"
  using standard_error_population [where T = 1 and sigma = 1 and n_simulations = 2
      and n_steps = 1 and division = PythonDivision and Z = draws_0_2 and S = 1 and K = 1
      and r = 0 and option_type = "''call''"]
  by (simp add: discounted_0_2)

text \<open>
  C4, as stated, fails: with the option type \<^verbatim>\<open>"straddle"\<close> the analytical price, Delta
  and the Monte Carlo price each return a number, the one of the put, and raise nothing.
\<close>

theorem unrecognized_option_type_returns:
  "BlackScholesPricer_price point_mass_cdf 1 2 0 0 1 ''straddle'' = Inr 1
   \<and> GreeksCalculator_delta point_mass_cdf 1 2 0 0 1 ''straddle'' = Inr (- 1)
   \<and> MonteCarloPricer_price PythonDivision (\<lambda>i j. 0) 1 2 0 0 1 ''straddle'' 1 1 = Inr (SimResult 1 0)"
  by (simp add: BlackScholesPricer_price_def GreeksCalculator_delta_def
      MonteCarloPricer_price_def)

text \<open>
  C4, amended. An option type other than \<^verbatim>\<open>"call"\<close> takes the \<^verbatim>\<open>else\<close> branch of every
  test \<^verbatim>\<open>option_type == "call"\<close>: the analytical price, Delta, Theta, Rho, the dictionary
  of all Greeks and the Monte Carlo price return (or raise) exactly what they do for
  \<^verbatim>\<open>"put"\<close>.
\<close>

theorem other_option_type_is_put:
  assumes "option_type \<noteq> ''call''"
  shows "BlackScholesPricer_price norm_cdf S K T r sigma option_type
           = BlackScholesPricer_price norm_cdf S K T r sigma ''put''
       \<and> GreeksCalculator_delta norm_cdf S K T r sigma option_type
           = GreeksCalculator_delta norm_cdf S K T r sigma ''put''
       \<and> GreeksCalculator_theta norm_cdf norm_pdf S K T r sigma option_type
           = GreeksCalculator_theta norm_cdf norm_pdf S K T r sigma ''put''
       \<and> GreeksCalculator_rho norm_cdf S K T r sigma option_type
           = GreeksCalculator_rho norm_cdf S K T r sigma ''put''
       \<and> GreeksCalculator_all_greeks norm_cdf norm_pdf S K T r sigma option_type
           = GreeksCalculator_all_greeks norm_cdf norm_pdf S K T r sigma ''put''
       \<and> MonteCarloPricer_price division Z S K T r sigma option_type n_simulations n_steps
           = MonteCarloPricer_price division Z S K T r sigma ''put'' n_simulations n_steps"
proof -
  have d: "GreeksCalculator_delta norm_cdf S K T r sigma option_type
           = GreeksCalculator_delta norm_cdf S K T r sigma ''put''"
    using assms by (simp add: GreeksCalculator_delta_def split: sum.splits prod.splits)
  have t: "GreeksCalculator_theta norm_cdf norm_pdf S K T r sigma option_type
           = GreeksCalculator_theta norm_cdf norm_pdf S K T r sigma ''put''"
    using assms by (simp add: GreeksCalculator_theta_def split: sum.splits prod.splits)
  have rh: "GreeksCalculator_rho norm_cdf S K T r sigma option_type
           = GreeksCalculator_rho norm_cdf S K T r sigma ''put''"
    using assms by (simp add: GreeksCalculator_rho_def split: sum.splits prod.splits)
  have a: "GreeksCalculator_all_greeks norm_cdf norm_pdf S K T r sigma option_type
           = GreeksCalculator_all_greeks norm_cdf norm_pdf S K T r sigma ''put''"
    unfolding GreeksCalculator_all_greeks_def d t rh ..
  have p: "BlackScholesPricer_price norm_cdf S K T r sigma option_type
           = BlackScholesPricer_price norm_cdf S K T r sigma ''put''"
    using assms by (simp add: BlackScholesPricer_price_def)
  have m: "MonteCarloPricer_price division Z S K T r sigma option_type n_simulations n_steps
           = MonteCarloPricer_price division Z S K T r sigma ''put'' n_simulations n_steps"
    using assms
    by (simp add: MonteCarloPricer_price_def MonteCarloPricer_discounted_payoffs_def
        MonteCarloPricer_price_inf_dt_def)
  from p d t rh a m show ?thesis by simp
qed

theorem other_option_type_is_put_witness:
  "''straddle'' \<noteq> ''call''
   \<and> BlackScholesPricer_price point_mass_cdf 1 2 0 0 1 ''straddle''
       = BlackScholesPricer_price point_mass_cdf 1 2 0 0 1 ''put''
   \<and> GreeksCalculator_delta point_mass_cdf 1 2 0 0 1 ''straddle''
       = GreeksCalculator_delta point_mass_cdf 1 2 0 0 1 ''put''
   \<and> MonteCarloPricer_price PythonDivision (\<lambda>i j. 0) 1 2 0 0 1 ''straddle'' 1 1
       = MonteCarloPricer_price PythonDivision (\<lambda>i j. 0) 1 2 0 0 1 ''put'' 1 1"
  using other_option_type_is_put [where option_type = "''straddle''"
      and norm_cdf = point_mass_cdf and norm_pdf = point_mass_cdf and S = 1 and K = 2
      and T = 0 and r = 0 and sigma = 1 and division = PythonDivision and Z = "\<lambda>i j. 0"
      and n_simulations = 1 and n_steps = 1]
  by simp

text \<open>
  C5, as stated, fails: for an expired option, or one without volatility, the Monte
  Carlo price returns the closed-form value and a zero standard error also when
  \<^verbatim>\<open>n_simulations\<close> and \<^verbatim>\<open>n_steps\<close> are zero or negative.
\<close>

theorem nonpositive_counts_return_numbers:
  "MonteCarloPricer_price PythonDivision (\<lambda>i j. 0) 3 1 0 0 1 ''call'' 0 0 = Inr (SimResult 2 0)
   \<and> MonteCarloPricer_price PythonDivision (\<lambda>i j. 0) 3 1 1 0 0 ''call'' (- 5) (- 1) = Inr (SimResult 2 0)"
  by (simp add: MonteCarloPricer_price_def)

text \<open>
  C5, amended. With \<^verbatim>\<open>n_simulations \<le> 0\<close> or \<^verbatim>\<open>n_steps \<le> 0\<close> the Monte Carlo price
  returns the closed-form value with a zero standard error when \<open>T \<le> 0\<close> or
  \<open>sigma \<le> 0\<close>. Otherwise: with \<^verbatim>\<open>n_steps\<close> zero and Python's division it raises
  \<^verbatim>\<open>ZeroDivisionError\<close>; with a negative \<^verbatim>\<open>n_simulations\<close> or \<^verbatim>\<open>n_steps\<close> it raises
  \<^verbatim>\<open>ValueError\<close>; with \<^verbatim>\<open>n_steps\<close> zero, numpy's division and \<^verbatim>\<open>n_simulations \<ge> 0\<close> it
  raises nothing and returns the pair computed from \<^verbatim>\<open>dt = inf\<close>; and with
  \<^verbatim>\<open>n_simulations\<close> zero and \<^verbatim>\<open>n_steps\<close> positive it returns \<^verbatim>\<open>(nan, nan)\<close>.
\<close>

theorem nonpositive_counts_outcome:
  assumes "n_simulations \<le> 0 \<or> n_steps \<le> 0"
  shows "MonteCarloPricer_price division Z S K T r sigma option_type n_simulations n_steps =
    (if T \<le> 0 then
       Inr (SimResult (if option_type = ''call'' then max (S - K) 0 else max (K - S) 0) 0)
     else if sigma \<le> 0 then
       Inr (SimResult (if option_type = ''call'' then max (S - K * exp (- (r * T))) 0
                       else max (K * exp (- (r * T)) - S) 0) 0)
     else if n_steps = 0 \<and> division = PythonDivision then Inl ZeroDivisionError
     else if n_simulations < 0 \<or> n_steps < 0 then Inl ValueError
     else if n_steps = 0 then
       Inr (MonteCarloPricer_price_inf_dt S K T r sigma option_type n_simulations)
     else Inr SimNaN)"
proof -
  have "MonteCarloPricer_discounted_payoffs Z S K T r sigma option_type n_simulations n_steps
        = []" if "n_simulations = 0"
    using that length_discounted_payoffs [of Z S K T r sigma option_type n_simulations n_steps]
    by simp
  with assms show ?thesis
    by (auto simp add: MonteCarloPricer_price_def Let_def)
qed

theorem nonpositive_counts_outcome_witness:
  "((0::int) \<le> 0 \<or> (1::int) \<le> 0)
   \<and> MonteCarloPricer_price PythonDivision (\<lambda>i j. 0) 1 1 1 0 1 ''call'' 0 1 = Inr SimNaN
   \<and> ((2::int) \<le> 0 \<or> (0::int) \<le> 0)
   \<and> MonteCarloPricer_price PythonDivision (\<lambda>i j. 0) 1 1 1 0 1 ''call'' 2 0
       = Inl ZeroDivisionError
   \<and> MonteCarloPricer_price NumpyDivision (\<lambda>i j. 0) 1 1 1 0 1 ''call'' 2 0
       = Inr (SimResult 0 0)
   \<and> MonteCarloPricer_price NumpyDivision (\<lambda>i j. 0) 1 1 1 1 1 ''call'' 0 0
       = Inr (SimNonFinite PosInf NaN)
   \<and> ((- 2::int) \<le> 0 \<or> (3::int) \<le> 0)
   \<and> MonteCarloPricer_price NumpyDivision (\<lambda>i j. 0) 1 1 1 0 1 ''call'' (- 2) 3
       = Inl ValueError"
  using nonpositive_counts_outcome [where n_simulations = 0 and n_steps = 1
      and division = PythonDivision and Z = "\<lambda>i j. 0" and S = 1 and K = 1 and T = 1
      and r = 0 and sigma = 1 and option_type = "''call''"]
    nonpositive_counts_outcome [where n_simulations = 2 and n_steps = 0
      and division = PythonDivision and Z = "\<lambda>i j. 0" and S = 1 and K = 1 and T = 1
      and r = 0 and sigma = 1 and option_type = "''call''"]
    nonpositive_counts_outcome [where n_simulations = 2 and n_steps = 0
      and division = NumpyDivision and Z = "\<lambda>i j. 0" and S = 1 and K = 1 and T = 1
      and r = 0 and sigma = 1 and option_type = "''call''"]
    nonpositive_counts_outcome [where n_simulations = 0 and n_steps = 0
      and division = NumpyDivision and Z = "\<lambda>i j. 0" and S = 1 and K = 1 and T = 1
      and r = 1 and sigma = 1 and option_type = "''call''"]
    nonpositive_counts_outcome [where n_simulations = "- 2" and n_steps = 3
      and division = NumpyDivision and Z = "\<lambda>i j. 0" and S = 1 and K = 1 and T = 1
      and r = 0 and sigma = 1 and option_type = "''call''"]
  by (simp add: MonteCarloPricer_price_inf_dt_def)

lemma length_mask_set: "length (mask_set p m v) = length p"
  by (induction p m v rule: mask_set.induct) simp_all

lemma mask_get_Nil: "mask_get [] m = []" "mask_get a [] = []"
  by (simp_all add: mask_get_def)

lemma mask_get_Cons:
  "mask_get (x # a) (b # m) = (if b then x # mask_get a m else mask_get a m)"
  by (simp add: mask_get_def)

lemma mask_get_map: "map f (mask_get a m) = mask_get (map f a) m"
proof (induction a arbitrary: m)
  case Nil
  then show ?case by (simp add: mask_get_Nil)
next
  case (Cons x a)
  then show ?case by (cases m) (simp_all add: mask_get_Nil mask_get_Cons)
qed

lemma mask_get_zip:
  "length a = length b \<Longrightarrow> zip (mask_get a m) (mask_get b m) = mask_get (zip a b) m"
proof (induction a b arbitrary: m rule: list_induct2)
  case Nil
  then show ?case by (simp add: mask_get_Nil)
next
  case (Cons x a y b)
  then show ?case by (cases m) (simp_all add: mask_get_Nil mask_get_Cons)
qed

lemma mask_set_get:
  "length p = length m \<Longrightarrow> length m = length e \<Longrightarrow>
   mask_set p m (mask_get e m) = map (\<lambda>(x, b, v). if b then v else x) (zip p (zip m e))"
proof (induction p m e rule: list_induct3)
  case Nil
  then show ?case by simp
next
  case (Cons x p b m v e)
  then show ?case by (cases b) (simp_all add: mask_get_Cons)
qed

lemma nth_mask_set_get:
  assumes "length p = length m" and "length m = length e" and "i < length m"
  shows "mask_set p m (mask_get e m) ! i = (if m ! i then e ! i else p ! i)"
  using assms by (simp add: mask_set_get)

lemma any_normal:
  assumes "i < length T" and "length sigma = length T" and "0 < T ! i" and "0 < sigma ! i"
  shows "\<exists>m \<in> set (map2 (\<lambda>t s. t > 0 \<and> s > 0) T sigma). m"
proof -
  have "map2 (\<lambda>t s. t > 0 \<and> s > 0) T sigma ! i \<in> set (map2 (\<lambda>t s. t > 0 \<and> s > 0) T sigma)"
    using assms by (intro nth_mem) simp
  then show ?thesis using assms by auto
qed

lemma price_vectorized_nth:
  assumes "length K = length S" and "length T = length S" and "length sigma = length S"
    and "i < length S"
  shows "BlackScholesPricer_price_vectorized norm_cdf S_dtype S K T r sigma option_type ! i =
    max (astype S_dtype
          (if T ! i \<le> 0 then
             (if option_type = ''call'' then max (S ! i - K ! i) 0
              else max (K ! i - S ! i) 0)
           else if sigma ! i \<le> 0 then
             (if option_type = ''call'' then max (S ! i - K ! i * exp (- r * T ! i)) 0
              else max (K ! i * exp (- r * T ! i) - S ! i) 0)
           else
             (let d1 = (ln (S ! i / K ! i) + (r + 0.5 * (sigma ! i) ^ 2) * T ! i)
                       / (sigma ! i * sqrt (T ! i));
                  d2 = d1 - sigma ! i * sqrt (T ! i)
              in if option_type = ''call''
                 then S ! i * norm_cdf d1 - K ! i * exp (- r * T ! i) * norm_cdf d2
                 else K ! i * exp (- r * T ! i) * norm_cdf (- d2)
                      - S ! i * norm_cdf (- d1)))) 0"
proof -
  note defs = BlackScholesPricer_price_vectorized_def np_maximum_def Let_def
  note rules = mask_get_map mask_get_zip nth_mask_set_get length_mask_set
  consider "T ! i \<le> 0" | "0 < T ! i" "sigma ! i \<le> 0" | "0 < T ! i" "0 < sigma ! i"
    by linarith
  then show ?thesis
  proof cases
    case 1
    with assms show ?thesis
      unfolding defs by (simp add: rules)
  next
    case 2
    with assms show ?thesis
      unfolding defs by (simp add: rules)
  next
    case 3
    then have "\<exists>m \<in> set (map2 (\<lambda>t s. t > 0 \<and> s > 0) T sigma). m"
      using any_normal [of i T sigma] assms by simp
    with 3 assms show ?thesis
      unfolding defs by (simp add: rules)
  qed
qed

lemma length_price_vectorized:
  "length (BlackScholesPricer_price_vectorized norm_cdf S_dtype S K T r sigma option_type)
   = length S"
  unfolding BlackScholesPricer_price_vectorized_def np_maximum_def Let_def
  by (simp add: length_mask_set)

text \<open>
  On floating-point arrays of one length with positive spots and strikes the vectorized
  price is an array of that length whose entry \<open>i\<close> is the scalar price of
  \<open>(S[i], K[i], T[i], r, sigma[i])\<close>.
\<close>

lemma price_vectorized_float_arrays:
  assumes "length K = length S" and "length T = length S" and "length sigma = length S"
    and "\<forall>x \<in> set S. 0 < x" and "\<forall>x \<in> set K. 0 < x"
  shows "length (BlackScholesPricer_price_vectorized norm_cdf Float64 S K T r sigma
                   option_type) = length S
       \<and> (\<forall>i < length S.
            Inr (BlackScholesPricer_price_vectorized norm_cdf Float64 S K T r sigma
                   option_type ! i)
            = BlackScholesPricer_price norm_cdf (S ! i) (K ! i) (T ! i) r (sigma ! i)
                option_type)"
proof (intro conjI allI impI)
  show "length (BlackScholesPricer_price_vectorized norm_cdf Float64 S K T r sigma
                   option_type) = length S"
    by (rule length_price_vectorized)
next
  fix i assume i: "i < length S"
  then have "K ! i \<in> set K" using assms(1) by simp
  then have "K ! i \<noteq> 0" using assms(5) by fastforce
  then show "Inr (BlackScholesPricer_price_vectorized norm_cdf Float64 S K T r sigma
                   option_type ! i)
            = BlackScholesPricer_price norm_cdf (S ! i) (K ! i) (T ! i) r (sigma ! i)
                option_type"
    unfolding price_vectorized_nth [OF assms(1-3) i]
    by (simp add: BlackScholesPricer_price_def Let_def astype_def)
qed

lemma price_vectorized_float_example:
  "BlackScholesPricer_price_vectorized point_mass_cdf Float64
     [1, 1, 1] [2, 1, 1] [0, 1, 1] 0 [1, 0, 1] ''put'' = [1, 0, 1]"
  unfolding BlackScholesPricer_price_vectorized_def np_maximum_def Let_def
  by (simp add: mask_get_Cons mask_get_Nil point_mass_cdf_def astype_def)

text \<open>
  C7. The claim is for every family of arrays of one length. With an integer array of
  spots \<^verbatim>\<open>prices\<close> is an integer array and every price written to it loses its
  fractional part: for \<^verbatim>\<open>S = np.array([3, 3])\<close>, \<^verbatim>\<open>K = np.array([1.5, 4.0])\<close>,
  \<^verbatim>\<open>T = np.array([0.0, 0.0])\<close>, \<^verbatim>\<open>r = 0\<close>, \<^verbatim>\<open>sigma = np.array([0.2, 0.2])\<close> and a call the
  vectorized price is \<open>[1, 0]\<close>, while the scalar price of the first entry is \<open>3/2\<close>.
\<close>

theorem price_vectorized_truncates_integer_spots:
  "BlackScholesPricer_price_vectorized point_mass_cdf Int64
     [3, 3] [3 / 2, 4] [0, 0] 0 [1 / 5, 1 / 5] ''call'' = [1, 0]
   \<and> BlackScholesPricer_price point_mass_cdf 3 (3 / 2) 0 0 (1 / 5) ''call'' = Inr (3 / 2)
   \<and> BlackScholesPricer_price point_mass_cdf 3 4 0 0 (1 / 5) ''call'' = Inr 0"
  unfolding BlackScholesPricer_price_vectorized_def np_maximum_def Let_def
  by (simp add: mask_get_Cons mask_get_Nil astype_def BlackScholesPricer_price_def)

end
